theory Spec2Isabelle
  imports Complex_Main "HOL-Library.Sublist"
begin

section \<open>JavaScript values and the operators the program uses\<close>

text \<open>
  The program under study is \<^verbatim>\<open>api/todo/index.js\<close>: an HTTP handler in front of an
  in-memory \<^verbatim>\<open>TodoDatabase\<close>. Its behaviour depends on four operators of the language:
  truthiness (\<^verbatim>\<open>if (req.body.description)\<close>, \<^verbatim>\<open>? 1 : 0\<close>), property access
  (\<^verbatim>\<open>req.body.id\<close>), strict equality (\<^verbatim>\<open>===\<close> in \<^verbatim>\<open>listBy\<close> and \<^verbatim>\<open>setColumn\<close>) and loose
  inequality (\<^verbatim>\<open>!=\<close> in \<^verbatim>\<open>deleteBy\<close>). They are modelled after ECMAScript on the values a
  parsed JSON request can carry.

  A number is a double: not-a-number, an infinity or a finite value. Finite values are
  kept as rationals, of which the doubles are a subset; the two zeros are identified,
  since neither \<^verbatim>\<open>===\<close>, \<^verbatim>\<open>==\<close> nor truthiness tells them apart.
\<close>

datatype jsnum = NaN | PosInf | NegInf | Fin rat

text \<open>
  Arrays and objects carry the address of the object: two objects are the same value
  exactly when they are the same object. An object is the list of its own properties.
\<close>

datatype jsval =
    JUndefined
  | JNull
  | JBool bool
  | JNum jsnum
  | JStr string
  | JArr nat "jsval list"
  | JObj nat "(string \<times> jsval) list"

datatype jstype = TUndefined | TNull | TBoolean | TNumber | TString | TObject

fun Type :: "jsval \<Rightarrow> jstype" where
  "Type JUndefined = TUndefined"
| "Type JNull = TNull"
| "Type (JBool b) = TBoolean"
| "Type (JNum n) = TNumber"
| "Type (JStr s) = TString"
| "Type (JArr r xs) = TObject"
| "Type (JObj r kvs) = TObject"

text \<open>
  What the program can throw: a \<^verbatim>\<open>TypeError\<close> of the language (reading a property of
  \<^verbatim>\<open>undefined\<close> or \<^verbatim>\<open>null\<close>, an object that has no primitive value), or the error with
  which the identity provider rejects a token, carrying its message.
\<close>

datatype exn = TypeError | Rejected string

definition bind_exn :: "exn + 'a \<Rightarrow> ('a \<Rightarrow> exn + 'b) \<Rightarrow> exn + 'b" where
  "bind_exn m f = (case m of Inl e \<Rightarrow> Inl e | Inr v \<Rightarrow> f v)"

text \<open>
  The conversions between strings and numbers (\<^verbatim>\<open>StringToNumber\<close> and
  \<^verbatim>\<open>Number::toString\<close> of ECMAScript) belong to the engine and are parameters of the
  model: every theorem below that mentions an engine \<open>E\<close> holds for each one.
\<close>

record engine =
  StringToNumber :: "string \<Rightarrow> jsnum"
  NumberToString :: "jsnum \<Rightarrow> string"

text \<open>\<^verbatim>\<open>ToBoolean\<close>: the falsy values are \<^verbatim>\<open>undefined\<close>, \<^verbatim>\<open>null\<close>, \<^verbatim>\<open>false\<close>, zero, NaN and
  the empty string.\<close>

fun ToBoolean :: "jsval \<Rightarrow> bool" where
  "ToBoolean JUndefined = False"
| "ToBoolean JNull = False"
| "ToBoolean (JBool b) = b"
| "ToBoolean (JNum n) = (n \<noteq> NaN \<and> n \<noteq> Fin 0)"
| "ToBoolean (JStr s) = (s \<noteq> [])"
| "ToBoolean (JArr r xs) = True"
| "ToBoolean (JObj r kvs) = True"

text \<open>\<^verbatim>\<open>Number::equal\<close>: NaN equals nothing, itself included.\<close>

definition Number_equal :: "jsnum \<Rightarrow> jsnum \<Rightarrow> bool" where
  "Number_equal m n = (m \<noteq> NaN \<and> m = n)"

text \<open>\<^verbatim>\<open>x === y\<close>: values of different types are never equal; objects are compared by
  address.\<close>

fun IsStrictlyEqual :: "jsval \<Rightarrow> jsval \<Rightarrow> bool" where
  "IsStrictlyEqual JUndefined JUndefined = True"
| "IsStrictlyEqual JNull JNull = True"
| "IsStrictlyEqual (JBool a) (JBool b) = (a = b)"
| "IsStrictlyEqual (JNum m) (JNum n) = Number_equal m n"
| "IsStrictlyEqual (JStr s) (JStr t) = (s = t)"
| "IsStrictlyEqual (JArr r xs) (JArr r' ys) = (r = r')"
| "IsStrictlyEqual (JObj r kvs) (JObj r' kvs') = (r = r')"
| "IsStrictlyEqual x y = False"

text \<open>\<^verbatim>\<open>Array.prototype.join\<close> with the default separator.\<close>

fun join :: "string list \<Rightarrow> string" where
  "join [] = []"
| "join [s] = s"
| "join (s # t # ts) = s @ '','' @ join (t # ts)"

text \<open>
  \<^verbatim>\<open>ToString\<close>. An array is joined, with \<^verbatim>\<open>undefined\<close> and \<^verbatim>\<open>null\<close> elements printed as
  the empty string. A plain object prints as \<^verbatim>\<open>[object Object]\<close> through
  \<^verbatim>\<open>Object.prototype.toString\<close>, unless it has an own property \<^verbatim>\<open>toString\<close>: a parsed JSON
  value is never callable, so that property hides the inherited method, \<^verbatim>\<open>valueOf\<close>
  yields no primitive either, and the conversion throws.
\<close>

fun ToString :: "engine \<Rightarrow> jsval \<Rightarrow> exn + string"
and ToString_elements :: "engine \<Rightarrow> jsval list \<Rightarrow> exn + string list" where
  "ToString E JUndefined = Inr ''undefined''"
| "ToString E JNull = Inr ''null''"
| "ToString E (JBool b) = Inr (if b then ''true'' else ''false'')"
| "ToString E (JNum n) = Inr (NumberToString E n)"
| "ToString E (JStr s) = Inr s"
| "ToString E (JArr r xs) =
     (case ToString_elements E xs of Inl e \<Rightarrow> Inl e | Inr ss \<Rightarrow> Inr (join ss))"
| "ToString E (JObj r kvs) =
     (if ''toString'' \<in> fst ` set kvs then Inl TypeError else Inr ''[object Object]'')"
| "ToString_elements E [] = Inr []"
| "ToString_elements E (x # xs) =
     (case (if x = JUndefined \<or> x = JNull then Inr [] else ToString E x) of
        Inl e \<Rightarrow> Inl e
      | Inr s \<Rightarrow>
          (case ToString_elements E xs of Inl e \<Rightarrow> Inl e | Inr ss \<Rightarrow> Inr (s # ss)))"

text \<open>
  \<^verbatim>\<open>ToPrimitive\<close> without a hint. A primitive is returned as it is. For an object,
  \<^verbatim>\<open>valueOf\<close> comes first and returns the object itself (or is an own, non-callable
  property), so the result is that of \<^verbatim>\<open>toString\<close>.
\<close>

definition ToPrimitive :: "engine \<Rightarrow> jsval \<Rightarrow> exn + jsval" where
  "ToPrimitive E v =
     (if Type v = TObject
      then (case ToString E v of Inl e \<Rightarrow> Inl e | Inr s \<Rightarrow> Inr (JStr s))
      else Inr v)"

definition Boolean_ToNumber :: "bool \<Rightarrow> jsnum" where
  "Boolean_ToNumber b = (if b then Fin 1 else Fin 0)"

fun the_string :: "jsval \<Rightarrow> string" where
  "the_string (JStr s) = s"
| "the_string v = []"

fun the_boolean :: "jsval \<Rightarrow> bool" where
  "the_boolean (JBool b) = b"
| "the_boolean v = False"

lemma ToPrimitive_primitive: "ToPrimitive E v = Inr p \<Longrightarrow> Type p \<noteq> TObject"
  by (auto simp: ToPrimitive_def split: if_splits sum.splits)

text \<open>
  \<^verbatim>\<open>x == y\<close>, the steps of \<^verbatim>\<open>IsLooselyEqual\<close> in their order: same type, then
  \<^verbatim>\<open>null\<close> against \<^verbatim>\<open>undefined\<close>, then a number against a string, then a boolean
  turned into a number, then an object turned into a primitive, else false.
  \<open>the_string\<close> and \<open>the_boolean\<close> are only applied under the matching type test.
\<close>

function IsLooselyEqual :: "engine \<Rightarrow> jsval \<Rightarrow> jsval \<Rightarrow> exn + bool" where
  "IsLooselyEqual E x y =
     (if Type x = Type y then Inr (IsStrictlyEqual x y)
      else if Type x = TNull \<and> Type y = TUndefined then Inr True
      else if Type x = TUndefined \<and> Type y = TNull then Inr True
      else if Type x = TNumber \<and> Type y = TString
        then IsLooselyEqual E x (JNum (StringToNumber E (the_string y)))
      else if Type x = TString \<and> Type y = TNumber
        then IsLooselyEqual E (JNum (StringToNumber E (the_string x))) y
      else if Type x = TBoolean
        then IsLooselyEqual E (JNum (Boolean_ToNumber (the_boolean x))) y
      else if Type y = TBoolean
        then IsLooselyEqual E x (JNum (Boolean_ToNumber (the_boolean y)))
      else if (Type x = TString \<or> Type x = TNumber) \<and> Type y = TObject
        then (case ToPrimitive E y of Inl e \<Rightarrow> Inl e | Inr p \<Rightarrow> IsLooselyEqual E x p)
      else if Type x = TObject \<and> (Type y = TString \<or> Type y = TNumber)
        then (case ToPrimitive E x of Inl e \<Rightarrow> Inl e | Inr p \<Rightarrow> IsLooselyEqual E p y)
      else Inr False)"
  by pat_completeness auto

fun conversions_left :: "jsval \<Rightarrow> nat" where
  "conversions_left (JArr r xs) = 2"
| "conversions_left (JObj r kvs) = 2"
| "conversions_left (JBool b) = 1"
| "conversions_left (JStr s) = 1"
| "conversions_left v = 0"

lemma conversions_left_Type:
  "conversions_left v =
     (if Type v = TObject then 2 else if Type v = TBoolean \<or> Type v = TString then 1 else 0)"
  by (cases v) auto

termination IsLooselyEqual
  by (relation "measure (\<lambda>(E, x, y). conversions_left x + conversions_left y)")
     (auto simp: conversions_left_Type dest: ToPrimitive_primitive)

declare IsLooselyEqual.simps [simp del]

text \<open>
  \<^verbatim>\<open>v.name\<close>: reading a property of \<^verbatim>\<open>undefined\<close> or \<^verbatim>\<open>null\<close> throws; an object yields its
  own property, and \<^verbatim>\<open>undefined\<close> when it has none of that name. The program reads the
  properties \<^verbatim>\<open>id\<close>, \<^verbatim>\<open>description\<close>, \<^verbatim>\<open>isCompleted\<close> and \<^verbatim>\<open>channelOrChatId\<close> only, which
  no prototype of a string, number, boolean, array or plain object provides.
\<close>

fun GetV :: "jsval \<Rightarrow> string \<Rightarrow> exn + jsval" where
  "GetV JUndefined name = Inl TypeError"
| "GetV JNull name = Inl TypeError"
| "GetV (JObj r kvs) name = (case map_of kvs name of Some v \<Rightarrow> Inr v | None \<Rightarrow> Inr JUndefined)"
| "GetV v name = Inr JUndefined"

text \<open>
  \<^verbatim>\<open>String.prototype.toLowerCase\<close>, on the letters A to Z. The result is only compared
  with \<^verbatim>\<open>get\<close>, \<^verbatim>\<open>put\<close>, \<^verbatim>\<open>post\<close> and \<^verbatim>\<open>delete\<close>, and no character outside A to Z has
  one of their letters as its lower case, so the comparisons come out as in the code.
\<close>

definition toLowerCase_char :: "char \<Rightarrow> char" where
  "toLowerCase_char c =
     (case map_of (zip ''ABCDEFGHIJKLMNOPQRSTUVWXYZ'' ''abcdefghijklmnopqrstuvwxyz'') c of
        Some l \<Rightarrow> l
      | None \<Rightarrow> c)"

definition toLowerCase :: "string \<Rightarrow> string" where
  "toLowerCase s = map toLowerCase_char s"

section \<open>The store: class \<^verbatim>\<open>TodoDatabase\<close>\<close>

text \<open>The five names of \<^verbatim>\<open>TodoDatabase.columns\<close>, the only column names the program
  passes to the store.\<close>

datatype column =
    columns_id
  | columns_description
  | columns_objectId
  | columns_isCompleted
  | columns_channelOrChatId

text \<open>A row as \<^verbatim>\<open>insert\<close> builds it. Every field holds a JavaScript value: nothing in
  the class fixes a type.\<close>

record item =
  item_id :: jsval
  description :: jsval
  objectId :: jsval
  isCompleted :: jsval
  channelOrChatId :: jsval

text \<open>\<^verbatim>\<open>item[column]\<close>, read and written.\<close>

fun get_column :: "item \<Rightarrow> column \<Rightarrow> jsval" where
  "get_column it columns_id = item_id it"
| "get_column it columns_description = description it"
| "get_column it columns_objectId = objectId it"
| "get_column it columns_isCompleted = isCompleted it"
| "get_column it columns_channelOrChatId = channelOrChatId it"

fun set_column :: "item \<Rightarrow> column \<Rightarrow> jsval \<Rightarrow> item" where
  "set_column it columns_id v = it\<lparr>item_id := v\<rparr>"
| "set_column it columns_description v = it\<lparr>description := v\<rparr>"
| "set_column it columns_objectId v = it\<lparr>objectId := v\<rparr>"
| "set_column it columns_isCompleted v = it\<lparr>isCompleted := v\<rparr>"
| "set_column it columns_channelOrChatId v = it\<lparr>channelOrChatId := v\<rparr>"

record TodoDatabase =
  data :: "item list"

text \<open>
  \<^verbatim>\<open>listBy(column, value)\<close>: the loop over \<^verbatim>\<open>this.data\<close>, pushing onto \<^verbatim>\<open>result\<close> each
  item with \<^verbatim>\<open>item[column] === value\<close>.
\<close>

fun listBy_loop :: "column \<Rightarrow> jsval \<Rightarrow> item list \<Rightarrow> item list \<Rightarrow> item list" where
  "listBy_loop col v [] result = result"
| "listBy_loop col v (it # rest) result =
     listBy_loop col v rest
       (if IsStrictlyEqual (get_column it col) v then result @ [it] else result)"

definition listBy :: "column \<Rightarrow> jsval \<Rightarrow> TodoDatabase \<Rightarrow> item list" where
  "listBy col v db = listBy_loop col v (data db) []"

text \<open>
  \<^verbatim>\<open>setColumn(id, column, value)\<close>: the loop over \<^verbatim>\<open>this.data\<close>, assigning
  \<^verbatim>\<open>item[column] = value\<close> in each item with \<^verbatim>\<open>item.id === id\<close>.
\<close>

fun setColumn_loop :: "jsval \<Rightarrow> column \<Rightarrow> jsval \<Rightarrow> item list \<Rightarrow> item list" where
  "setColumn_loop i col v [] = []"
| "setColumn_loop i col v (it # rest) =
     (if IsStrictlyEqual (item_id it) i then set_column it col v else it)
       # setColumn_loop i col v rest"

definition setColumn :: "jsval \<Rightarrow> column \<Rightarrow> jsval \<Rightarrow> TodoDatabase \<Rightarrow> TodoDatabase" where
  "setColumn i col v db = db\<lparr>data := setColumn_loop i col v (data db)\<rparr>"

text \<open>
  \<^verbatim>\<open>insert(description, objectId, isCompleted, channelOrChatId)\<close>: pushes a row whose
  \<^verbatim>\<open>id\<close> is \<^verbatim>\<open>uuid.v4()\<close>. The library \<^verbatim>\<open>uuid\<close> is not part of the repository: the
  string it returns for this call is the parameter \<open>uuid_v4\<close>.
\<close>

definition insert_row ::
  "string \<Rightarrow> jsval \<Rightarrow> jsval \<Rightarrow> jsval \<Rightarrow> jsval \<Rightarrow> TodoDatabase \<Rightarrow> TodoDatabase" where
  "insert_row uuid_v4 desc oid done chan db =
     db\<lparr>data := data db @
       [\<lparr>item_id = JStr uuid_v4, description = desc, objectId = oid,
         isCompleted = done, channelOrChatId = chan\<rparr>]\<rparr>"

text \<open>\<^verbatim>\<open>Array.prototype.filter\<close> with a callback that may throw: the first exception
  ends the call, and no array is returned.\<close>

fun Array_filter :: "('a \<Rightarrow> exn + bool) \<Rightarrow> 'a list \<Rightarrow> exn + 'a list" where
  "Array_filter f [] = Inr []"
| "Array_filter f (x # xs) =
     (case f x of
        Inl e \<Rightarrow> Inl e
      | Inr keep \<Rightarrow>
          (case Array_filter f xs of
             Inl e \<Rightarrow> Inl e
           | Inr kept \<Rightarrow> Inr (if keep then x # kept else kept)))"

text \<open>\<^verbatim>\<open>x != y\<close> is the negation of \<^verbatim>\<open>x == y\<close>.\<close>

definition IsLooselyUnequal :: "engine \<Rightarrow> jsval \<Rightarrow> jsval \<Rightarrow> exn + bool" where
  "IsLooselyUnequal E x y =
     (case IsLooselyEqual E x y of Inl e \<Rightarrow> Inl e | Inr b \<Rightarrow> Inr (\<not> b))"

text \<open>
  \<^verbatim>\<open>deleteBy(column, id)\<close>: \<^verbatim>\<open>this.data = this.data.filter((item) => item[column] != id)\<close>.
  When the comparison throws, the assignment does not happen.
\<close>

definition deleteBy :: "engine \<Rightarrow> column \<Rightarrow> jsval \<Rightarrow> TodoDatabase \<Rightarrow> exn + TodoDatabase" where
  "deleteBy E col i db =
     (case Array_filter (\<lambda>it. IsLooselyUnequal E (get_column it col) i) (data db) of
        Inl e \<Rightarrow> Inl e
      | Inr kept \<Rightarrow> Inr (db\<lparr>data := kept\<rparr>))"

section \<open>The handler: \<^verbatim>\<open>module.exports\<close>\<close>

record request =
  req_method :: string
  req_query :: jsval
  req_body :: jsval

record config =
  AccessToken :: string

text \<open>What \<^verbatim>\<open>getUserInfo()\<close> of the TeamsFx SDK resolves to.\<close>

record UserInfo =
  displayName :: string
  user_objectId :: string

text \<open>The value of \<^verbatim>\<open>result\<close>, which becomes the body of the response: the rows of
  \<^verbatim>\<open>listBy\<close>, a plain value, or \<^verbatim>\<open>{ error: err.message }\<close>.\<close>

datatype result = Rows "item list" | Value jsval | ErrorBody exn

record response =
  status :: nat
  body :: result

text \<open>
  The \<^verbatim>\<open>switch (method)\<close> with \<^verbatim>\<open>result\<close> initialised to the empty string. Arguments are
  evaluated from left to right, and each \<^verbatim>\<open>database\<close> method returns \<^verbatim>\<open>undefined\<close>.
\<close>

definition handler_switch ::
  "engine \<Rightarrow> string \<Rightarrow> string \<Rightarrow> string \<Rightarrow> request \<Rightarrow> TodoDatabase
     \<Rightarrow> exn + (result \<times> TodoDatabase)" where
  "handler_switch E uuid_v4 method oid req database =
     (if method = ''get'' then
        bind_exn (GetV (req_query req) ''channelOrChatId'') (\<lambda>v.
          Inr (Rows (listBy columns_channelOrChatId v database), database))
      else if method = ''put'' then
        bind_exn (GetV (req_body req) ''description'') (\<lambda>d.
          if ToBoolean d then
            bind_exn (GetV (req_body req) ''id'') (\<lambda>i.
            bind_exn (GetV (req_body req) ''description'') (\<lambda>d'.
              Inr (Value JUndefined, setColumn i columns_description d' database)))
          else
            bind_exn (GetV (req_body req) ''id'') (\<lambda>i.
            bind_exn (GetV (req_body req) ''isCompleted'') (\<lambda>c.
              Inr (Value JUndefined,
                   setColumn i columns_isCompleted
                     (JNum (if ToBoolean c then Fin 1 else Fin 0)) database))))
      else if method = ''post'' then
        bind_exn (GetV (req_body req) ''description'') (\<lambda>d.
        bind_exn (GetV (req_body req) ''isCompleted'') (\<lambda>c.
        bind_exn (GetV (req_body req) ''channelOrChatId'') (\<lambda>ch.
          Inr (Value JUndefined,
               insert_row uuid_v4 d (JStr oid)
                 (JNum (if ToBoolean c then Fin 1 else Fin 0)) ch database))))
      else if method = ''delete'' then
        (if ToBoolean (req_body req) then
           bind_exn (GetV (req_body req) ''id'') (\<lambda>i.
           bind_exn (deleteBy E columns_id i database) (\<lambda>database'.
             Inr (Value JUndefined, database')))
         else
           bind_exn (deleteBy E columns_objectId (JStr oid) database) (\<lambda>database'.
             Inr (Value JUndefined, database')))
      else Inr (Value (JStr []), database))"

text \<open>
  The exported function. \<open>getUserInfo\<close> stands for
  \<^verbatim>\<open>new TeamsFx().setSsoToken(accessToken).getUserInfo()\<close>, which either resolves the
  caller or throws; \<open>uuid_v4\<close> is what \<^verbatim>\<open>uuid.v4()\<close> returns if this request calls it;
  \<open>database\<close> is the module's global store, returned as the request leaves it. The
  \<^verbatim>\<open>context\<close> argument is not used by the code. In the \<^verbatim>\<open>try\<close> block every exception
  is thrown before the store is assigned, so the \<^verbatim>\<open>catch\<close> branch leaves the store
  as it was.
\<close>

definition handler ::
  "engine \<Rightarrow> (string \<Rightarrow> exn + UserInfo) \<Rightarrow> string \<Rightarrow> request \<Rightarrow> config \<Rightarrow> TodoDatabase
     \<Rightarrow> response \<times> TodoDatabase" where
  "handler E getUserInfo uuid_v4 req config database =
     (let method = toLowerCase (req_method req);
          accessToken = AccessToken config
      in case bind_exn (getUserInfo accessToken) (\<lambda>currentUser.
                handler_switch E uuid_v4 method (user_objectId currentUser) req database) of
           Inr (result, database') \<Rightarrow> (\<lparr>status = 200, body = result\<rparr>, database')
         | Inl err \<Rightarrow> (\<lparr>status = 500, body = ErrorBody err\<rparr>, database))"

text \<open>A sequence of invocations against the same store, each with the identifier
  \<^verbatim>\<open>uuid.v4()\<close> would hand out during it.\<close>

record invocation =
  inv_uuid :: string
  inv_req :: request
  inv_config :: config

fun run ::
  "engine \<Rightarrow> (string \<Rightarrow> exn + UserInfo) \<Rightarrow> invocation list \<Rightarrow> TodoDatabase \<Rightarrow> TodoDatabase" where
  "run E getUserInfo [] database = database"
| "run E getUserInfo (c # cs) database =
     run E getUserInfo cs
       (snd (handler E getUserInfo (inv_uuid c) (inv_req c) (inv_config c) database))"

section \<open>Vocabulary of the properties\<close>

text \<open>A property of a value that is not \<^verbatim>\<open>undefined\<close> or \<^verbatim>\<open>null\<close>, where \<open>GetV\<close>
  does not throw.\<close>

definition nullish :: "jsval \<Rightarrow> bool" where
  "nullish v = (v = JUndefined \<or> v = JNull)"

definition property :: "jsval \<Rightarrow> string \<Rightarrow> jsval" where
  "property v name = (case GetV v name of Inr x \<Rightarrow> x | Inl e \<Rightarrow> JUndefined)"

text \<open>An item's identifier together with its owner.\<close>

definition owner :: "item \<Rightarrow> jsval \<times> jsval" where
  "owner it = (item_id it, objectId it)"

text \<open>
  The rows a sequence of invocations can create, in order: one for each \<^verbatim>\<open>POST\<close> of a
  caller the identity provider resolves, with the identifier drawn for that invocation
  and the caller's \<^verbatim>\<open>objectId\<close>.
\<close>

fun created :: "(string \<Rightarrow> exn + UserInfo) \<Rightarrow> invocation list \<Rightarrow> (jsval \<times> jsval) list" where
  "created getUserInfo [] = []"
| "created getUserInfo (c # cs) =
     (case getUserInfo (AccessToken (inv_config c)) of
        Inr currentUser \<Rightarrow>
          if toLowerCase (req_method (inv_req c)) = ''post''
          then [(JStr (inv_uuid c), JStr (user_objectId currentUser))]
          else []
      | Inl err \<Rightarrow> [])
     @ created getUserInfo cs"


subsection \<open>Inputs of the examples\<close>

text \<open>An identity provider that knows two callers and rejects every other token.\<close>

definition directory :: "string \<Rightarrow> exn + UserInfo" where
  "directory token =
     (if token = ''token-alice'' then Inr \<lparr>displayName = ''Alice'', user_objectId = ''alice''\<rparr>
      else if token = ''token-bob'' then Inr \<lparr>displayName = ''Bob'', user_objectId = ''bob''\<rparr>
      else Inl (Rejected ''invalid token''))"

text \<open>An open item of the conversation \<^verbatim>\<open>chat1\<close>.\<close>

definition todo :: "string \<Rightarrow> string \<Rightarrow> string \<Rightarrow> item" where
  "todo i d oid =
     \<lparr>item_id = JStr i, description = JStr d, objectId = JStr oid,
      isCompleted = JNum (Fin 0), channelOrChatId = JStr ''chat1''\<rparr>"

text \<open>A \<^verbatim>\<open>POST\<close> whose body also carries an \<^verbatim>\<open>objectId\<close>, that of Bob.\<close>

definition post_request :: "string \<Rightarrow> request" where
  "post_request d =
     \<lparr>req_method = ''POST'', req_query = JObj 0 [],
      req_body = JObj 1 [(''description'', JStr d), (''isCompleted'', JBool False),
                         (''channelOrChatId'', JStr ''chat1''), (''objectId'', JStr ''bob'')]\<rparr>"

definition post_as :: "string \<Rightarrow> string \<Rightarrow> string \<Rightarrow> invocation" where
  "post_as token i d =
     \<lparr>inv_uuid = i, inv_req = post_request d, inv_config = \<lparr>AccessToken = token\<rparr>\<rparr>"

section \<open>The operators\<close>

lemma IsLooselyEqual_same_type:
  "Type x = Type y \<Longrightarrow> IsLooselyEqual E x y = Inr (IsStrictlyEqual x y)"
  by (subst IsLooselyEqual.simps) simp

lemma IsLooselyUnequal_True:
  "(IsLooselyUnequal E x y = Inr True) = (IsLooselyEqual E x y = Inr False)"
  by (auto simp: IsLooselyUnequal_def split: sum.splits)

lemma IsStrictlyEqual_JStr: "IsStrictlyEqual x (JStr s) = (x = JStr s)"
  by (cases x) auto

lemma IsStrictlyEqual_JUndefined: "IsStrictlyEqual x JUndefined = (x = JUndefined)"
  by (cases x) auto

lemma GetV_property: "GetV v name = (if nullish v then Inl TypeError else Inr (property v name))"
  by (cases v) (auto simp: property_def nullish_def split: option.splits)

lemma Array_filter_total:
  "(\<And>x. x \<in> set xs \<Longrightarrow> f x = Inr (p x)) \<Longrightarrow> Array_filter f xs = Inr (filter p xs)"
  by (induction xs) auto

lemma Array_filter_Inr:
  "Array_filter f xs = Inr ys \<Longrightarrow> ys = filter (\<lambda>x. f x = Inr True) xs"
  by (induction xs arbitrary: ys) (auto split: sum.splits if_splits)

lemma subseq_member: "subseq xs ys \<Longrightarrow> x \<in> set xs \<Longrightarrow> x \<in> set ys"
  by (drule list_emb_set) auto

lemma subseq_filter_map: "subseq (map f (filter P xs)) (map f xs)"
  by (induction xs) auto


section \<open>The four operations of the store\<close>

lemma listBy_loop_filter:
  "listBy_loop col v xs acc = acc @ filter (\<lambda>it. IsStrictlyEqual (get_column it col) v) xs"
  by (induction xs arbitrary: acc) auto

lemma listBy_filter:
  "listBy col v db = filter (\<lambda>it. IsStrictlyEqual (get_column it col) v) (data db)"
  by (simp add: listBy_def listBy_loop_filter)

lemma setColumn_loop_map:
  "setColumn_loop i col v xs =
     map (\<lambda>it. if IsStrictlyEqual (item_id it) i then set_column it col v else it) xs"
  by (induction xs) auto

text \<open>When \<^verbatim>\<open>deleteBy\<close> returns, it has kept the items that are not loosely equal to the
  value, and removed every other one.\<close>

lemma deleteBy_filter:
  "deleteBy E col v db = Inr db' \<Longrightarrow>
     db' = db\<lparr>data := filter (\<lambda>it. IsLooselyEqual E (get_column it col) v = Inr False) (data db)\<rparr>"
  by (auto simp: deleteBy_def IsLooselyUnequal_True split: sum.splits dest!: Array_filter_Inr)

text \<open>Where the column holds values of the type of the value throughout, no conversion
  takes place: \<^verbatim>\<open>deleteBy\<close> returns, and \<^verbatim>\<open>!=\<close> is the negation of \<^verbatim>\<open>===\<close>.\<close>

lemma deleteBy_same_type:
  assumes "\<And>it. it \<in> set (data db) \<Longrightarrow> Type (get_column it col) = Type v"
  shows "deleteBy E col v db =
           Inr (db\<lparr>data := filter (\<lambda>it. \<not> IsStrictlyEqual (get_column it col) v) (data db)\<rparr>)"
proof -
  have "Array_filter (\<lambda>it. IsLooselyUnequal E (get_column it col) v) (data db) =
          Inr (filter (\<lambda>it. \<not> IsStrictlyEqual (get_column it col) v) (data db))"
    by (rule Array_filter_total) (simp add: IsLooselyUnequal_def IsLooselyEqual_same_type assms)
  then show ?thesis by (simp add: deleteBy_def)
qed


subsection \<open>Identifiers and owners under each operation\<close>

lemma owner_set_column:
  "col = columns_description \<or> col = columns_isCompleted \<Longrightarrow>
     owner (set_column it col v) = owner it"
  by (auto simp: owner_def)

lemma owners_setColumn:
  "col = columns_description \<or> col = columns_isCompleted \<Longrightarrow>
     map owner (data (setColumn i col v db)) = map owner (data db)"
  by (simp add: setColumn_def setColumn_loop_map owner_set_column)

lemma owners_insert_row:
  "map owner (data (insert_row u d oid c ch db)) = map owner (data db) @ [(JStr u, oid)]"
  by (simp add: insert_row_def owner_def)

lemma owners_deleteBy:
  "deleteBy E col v db = Inr db' \<Longrightarrow> subseq (map owner (data db')) (map owner (data db))"
  by (auto dest!: deleteBy_filter simp: subseq_filter_map)

section \<open>The handler\<close>

lemma handler_rejected:
  "g (AccessToken cfg) = Inl err \<Longrightarrow>
     handler E g u req cfg db = (\<lparr>status = 500, body = ErrorBody err\<rparr>, db)"
  by (simp add: handler_def bind_exn_def)

lemma handler_resolved:
  "g (AccessToken cfg) = Inr currentUser \<Longrightarrow>
     handler E g u req cfg db =
       (case handler_switch E u (toLowerCase (req_method req)) (user_objectId currentUser) req db of
          Inr (result, db') \<Rightarrow> (\<lparr>status = 200, body = result\<rparr>, db')
        | Inl err \<Rightarrow> (\<lparr>status = 500, body = ErrorBody err\<rparr>, db))"
  by (simp add: handler_def bind_exn_def)

lemma handler_switch_owner:
  "handler_switch E u m oid req db = Inr (res, db') \<Longrightarrow>
     subseq (map owner (data db'))
       (map owner (data db) @ (if m = ''post'' then [(JStr u, JStr oid)] else []))"
  by (auto simp: handler_switch_def bind_exn_def owners_setColumn owners_insert_row owners_deleteBy
       split: if_splits sum.splits)

lemma handler_owner:
  "subseq (map owner (data (snd (handler E g (inv_uuid c) (inv_req c) (inv_config c) db))))
     (map owner (data db) @ created g [c])"
  by (auto simp: handler_def bind_exn_def Let_def split: sum.splits dest!: handler_switch_owner)

lemma run_owner:
  "subseq (map owner (data (run E g cs db))) (map owner (data db) @ created g cs)"
proof (induction cs arbitrary: db)
  case Nil
  then show ?case by simp
next
  case (Cons c cs)
  let ?db' = "snd (handler E g (inv_uuid c) (inv_req c) (inv_config c) db)"
  have step: "subseq (map owner (data ?db')) (map owner (data db) @ created g [c])"
    by (rule handler_owner)
  have "subseq (map owner (data (run E g cs ?db'))) (map owner (data ?db') @ created g cs)"
    by (rule Cons.IH)
  also have "subseq (map owner (data ?db') @ created g cs)
                    ((map owner (data db) @ created g [c]) @ created g cs)"
    using step by (rule list_emb_append_mono) simp
  finally show ?case by simp
qed


lemma created_strings: "p \<in> set (created g cs) \<Longrightarrow> \<exists>i s. p = (JStr i, JStr s)"
  by (induction cs) (auto split: sum.splits if_splits)


text \<open>In every store the handler builds from the empty one, identifiers and owners are
  strings.\<close>

lemma run_strings:
  assumes "it \<in> set (data (run E g cs \<lparr>data = []\<rparr>))"
  shows "\<exists>i s. item_id it = JStr i \<and> objectId it = JStr s"
proof -
  have "subseq (map owner (data (run E g cs \<lparr>data = []\<rparr>))) (created g cs)"
    using run_owner [of E g cs "\<lparr>data = []\<rparr>"] by simp
  moreover have "owner it \<in> set (map owner (data (run E g cs \<lparr>data = []\<rparr>)))"
    using assms by simp
  ultimately have "owner it \<in> set (created g cs)"
    by (rule subseq_member)
  then show ?thesis by (auto dest!: created_strings simp: owner_def)
qed

lemma run_two_posts:
  "run E directory [post_as ''token-alice'' ''id-1'' ''buy milk'',
                    post_as ''token-bob'' ''id-2'' ''call home''] \<lparr>data = []\<rparr> =
     \<lparr>data = [todo ''id-1'' ''buy milk'' ''alice'', todo ''id-2'' ''call home'' ''bob'']\<rparr>"
  by (simp add: post_as_def post_request_def handler_def handler_switch_def bind_exn_def
      directory_def toLowerCase_def toLowerCase_char_def insert_row_def todo_def)

section \<open>The claims\<close>

text \<open>
  The claims about the handler are read as the specification frames it: the handler
  receives a request together with a resolved identity. When the identity provider
  rejects the token, every method answers 500 and leaves the store as it was
  (\<open>handler_rejected\<close>).
\<close>

subsection \<open>C1\<close>

text \<open>
  C1. For every \<^verbatim>\<open>POST\<close> request of a resolved caller, the \<^verbatim>\<open>objectId\<close> of the inserted
  item is the \<^verbatim>\<open>objectId\<close> of the resolved identity, whatever the body holds: the body
  contributes \<^verbatim>\<open>description\<close>, \<^verbatim>\<open>isCompleted\<close> and \<^verbatim>\<open>channelOrChatId\<close> and nothing else.
  A request without a body inserts nothing and is answered 500.
\<close>

theorem post_takes_objectId_from_identity:
  assumes "toLowerCase (req_method req) = ''post''"
    and "getUserInfo (AccessToken cfg) = Inr currentUser"
  shows "handler E getUserInfo uuid req cfg database =
           (if nullish (req_body req)
            then (\<lparr>status = 500, body = ErrorBody TypeError\<rparr>, database)
            else (\<lparr>status = 200, body = Value JUndefined\<rparr>,
                  database\<lparr>data := data database @
                    [\<lparr>item_id = JStr uuid,
                      description = property (req_body req) ''description'',
                      objectId = JStr (user_objectId currentUser),
                      isCompleted =
                        JNum (if ToBoolean (property (req_body req) ''isCompleted'')
                              then Fin 1 else Fin 0),
                      channelOrChatId = property (req_body req) ''channelOrChatId''\<rparr>]\<rparr>))"
  using assms
  by (simp add: handler_resolved handler_switch_def bind_exn_def GetV_property insert_row_def)

text \<open>Alice posts a body that names Bob as the owner: the item is hers.\<close>

theorem post_takes_objectId_from_identity_witness:
  "\<forall>E. handler E directory ''id-1'' (post_request ''buy milk'') \<lparr>AccessToken = ''token-alice''\<rparr>
          \<lparr>data = []\<rparr> =
        (\<lparr>status = 200, body = Value JUndefined\<rparr>, \<lparr>data = [todo ''id-1'' ''buy milk'' ''alice'']\<rparr>)"
proof
  fix E :: engine
  have m: "toLowerCase (req_method (post_request ''buy milk'')) = ''post''"
    by (simp add: post_request_def toLowerCase_def toLowerCase_char_def)
  have u: "directory (AccessToken \<lparr>AccessToken = ''token-alice''\<rparr>) =
             Inr \<lparr>displayName = ''Alice'', user_objectId = ''alice''\<rparr>"
    by (simp add: directory_def)
  show "handler E directory ''id-1'' (post_request ''buy milk'') \<lparr>AccessToken = ''token-alice''\<rparr>
          \<lparr>data = []\<rparr> =
        (\<lparr>status = 200, body = Value JUndefined\<rparr>, \<lparr>data = [todo ''id-1'' ''buy milk'' ''alice'']\<rparr>)"
    using post_takes_objectId_from_identity [where req = "post_request ''buy milk''"
        and getUserInfo = directory and cfg = "\<lparr>AccessToken = ''token-alice''\<rparr>"
        and currentUser = "\<lparr>displayName = ''Alice'', user_objectId = ''alice''\<rparr>"
        and E = E and uuid = "''id-1''" and database = "\<lparr>data = []\<rparr>"] m u
    by (simp add: post_request_def nullish_def property_def todo_def)
qed

subsection \<open>C2\<close>

text \<open>
  C2. Over every sequence of invocations of the handler, whatever their methods, the
  items of the store keep the \<^verbatim>\<open>objectId\<close> they were created with: the pairs of
  identifier and \<^verbatim>\<open>objectId\<close> in the final store are, in order, a subsequence of the
  pairs of the initial store followed by the pairs the \<^verbatim>\<open>POST\<close> requests created. No
  operation of the handler writes the column: \<^verbatim>\<open>setColumn\<close> is only called on
  \<^verbatim>\<open>description\<close> and \<^verbatim>\<open>isCompleted\<close>.
\<close>

theorem objectId_set_only_at_creation:
  "subseq (map owner (data (run E getUserInfo cs database)))
     (map owner (data database) @ created getUserInfo cs)"
  by (rule run_owner)

subsection \<open>C3\<close>




subsection \<open>C4\<close>

text \<open>
  C4. \<^verbatim>\<open>deleteBy\<close> is claimed to keep exactly the items whose field does not equal the
  value, and to change nothing when no item's field equals it. The code compares with
  \<^verbatim>\<open>!=\<close>, where \<^verbatim>\<open>listBy\<close> and \<^verbatim>\<open>setColumn\<close> compare with \<^verbatim>\<open>===\<close>, and removes items whose
  field is a different value: no item has the array \<^verbatim>\<open>["id-1"]\<close> as its \<^verbatim>\<open>id\<close>, as
  \<^verbatim>\<open>listBy\<close> confirms, yet \<^verbatim>\<open>deleteBy\<close> with that array removes the item \<^verbatim>\<open>"id-1"\<close>; and
  \<^verbatim>\<open>deleteBy\<close> with \<^verbatim>\<open>undefined\<close> removes an item whose field is \<^verbatim>\<open>null\<close>.
\<close>

theorem deleteBy_removes_unequal_item:
  "listBy columns_id (JArr 7 [JStr ''id-1''])
     \<lparr>data = [todo ''id-1'' ''buy milk'' ''alice'', todo ''id-2'' ''call home'' ''bob'']\<rparr> = [] \<and>
   deleteBy E columns_id (JArr 7 [JStr ''id-1''])
     \<lparr>data = [todo ''id-1'' ''buy milk'' ''alice'', todo ''id-2'' ''call home'' ''bob'']\<rparr> =
     Inr \<lparr>data = [todo ''id-2'' ''call home'' ''bob'']\<rparr> \<and>
   deleteBy E columns_channelOrChatId JUndefined
     \<lparr>data = [(todo ''id-1'' ''buy milk'' ''alice'')\<lparr>channelOrChatId := JNull\<rparr>]\<rparr> =
     Inr \<lparr>data = []\<rparr>"
  by (simp add: listBy_filter deleteBy_def IsLooselyUnequal_def IsLooselyEqual.simps
      ToPrimitive_def todo_def)

subsection \<open>C5\<close>

text \<open>
  C5. A \<^verbatim>\<open>PUT\<close> request of a resolved caller with a body updates one field, in the items
  whose \<^verbatim>\<open>id\<close> is strictly equal to that of the body: \<^verbatim>\<open>description\<close> when the body's
  \<^verbatim>\<open>description\<close> is truthy, whatever \<^verbatim>\<open>isCompleted\<close> the body supplies, and otherwise
  \<^verbatim>\<open>isCompleted\<close>, set to 1 when the body's value is truthy and to 0 when it is not.
  Every other field and every other item stay as they were.
\<close>

theorem put_updates_one_field:
  assumes "toLowerCase (req_method req) = ''put''"
    and "getUserInfo (AccessToken cfg) = Inr currentUser"
  shows "handler E getUserInfo uuid req cfg database =
           (if nullish (req_body req)
            then (\<lparr>status = 500, body = ErrorBody TypeError\<rparr>, database)
            else (\<lparr>status = 200, body = Value JUndefined\<rparr>,
                  database\<lparr>data :=
                    map (\<lambda>it.
                      if IsStrictlyEqual (item_id it) (property (req_body req) ''id'')
                      then (if ToBoolean (property (req_body req) ''description'')
                            then it\<lparr>description := property (req_body req) ''description''\<rparr>
                            else it\<lparr>isCompleted :=
                              JNum (if ToBoolean (property (req_body req) ''isCompleted'')
                                    then Fin 1 else Fin 0)\<rparr>)
                      else it) (data database)\<rparr>))"
  using assms
  by (simp add: handler_resolved handler_switch_def bind_exn_def GetV_property setColumn_def
      setColumn_loop_map)

text \<open>A body with both a description and \<^verbatim>\<open>isCompleted: true\<close>: the description
  changes, the item stays open.\<close>

theorem put_updates_one_field_witness:
  "\<forall>E. handler E directory ''id-9''
          \<lparr>req_method = ''PUT'', req_query = JObj 0 [],
           req_body = JObj 1 [(''id'', JStr ''id-1''), (''description'', JStr ''buy bread''),
                              (''isCompleted'', JBool True)]\<rparr>
          \<lparr>AccessToken = ''token-bob''\<rparr>
          \<lparr>data = [todo ''id-1'' ''buy milk'' ''alice'', todo ''id-2'' ''call home'' ''bob'']\<rparr> =
        (\<lparr>status = 200, body = Value JUndefined\<rparr>,
         \<lparr>data = [todo ''id-1'' ''buy bread'' ''alice'', todo ''id-2'' ''call home'' ''bob'']\<rparr>)"
proof
  fix E :: engine
  let ?req = "\<lparr>req_method = ''PUT'', req_query = JObj 0 [],
           req_body = JObj 1 [(''id'', JStr ''id-1''), (''description'', JStr ''buy bread''),
                              (''isCompleted'', JBool True)]\<rparr>"
  have m: "toLowerCase (req_method ?req) = ''put''"
    by (simp add: toLowerCase_def toLowerCase_char_def)
  have u: "directory (AccessToken \<lparr>AccessToken = ''token-bob''\<rparr>) =
             Inr \<lparr>displayName = ''Bob'', user_objectId = ''bob''\<rparr>"
    by (simp add: directory_def)
  show "handler E directory ''id-9'' ?req \<lparr>AccessToken = ''token-bob''\<rparr>
          \<lparr>data = [todo ''id-1'' ''buy milk'' ''alice'', todo ''id-2'' ''call home'' ''bob'']\<rparr> =
        (\<lparr>status = 200, body = Value JUndefined\<rparr>,
         \<lparr>data = [todo ''id-1'' ''buy bread'' ''alice'', todo ''id-2'' ''call home'' ''bob'']\<rparr>)"
    using put_updates_one_field [where req = ?req
        and getUserInfo = directory and cfg = "\<lparr>AccessToken = ''token-bob''\<rparr>"
        and currentUser = "\<lparr>displayName = ''Bob'', user_objectId = ''bob''\<rparr>"
        and E = E and uuid = "''id-9''"
        and database = "\<lparr>data = [todo ''id-1'' ''buy milk'' ''alice'',
                                  todo ''id-2'' ''call home'' ''bob'']\<rparr>"] m u
    by (simp add: nullish_def property_def todo_def)
qed

subsection \<open>C6\<close>

text \<open>
  C6. In every store the handler has built from the empty one, a \<^verbatim>\<open>DELETE\<close> request of
  a resolved caller without a body (the body is \<^verbatim>\<open>undefined\<close>, or any other falsy value)
  leaves exactly the items whose \<^verbatim>\<open>objectId\<close> differs from the caller's, in their order:
  all the caller's items go, and every item of another identity stays.
\<close>

theorem delete_without_body_removes_own_items:
  assumes "toLowerCase (req_method req) = ''delete''"
    and "getUserInfo (AccessToken cfg) = Inr currentUser"
    and "\<not> ToBoolean (req_body req)"
    and "database = run E getUserInfo cs \<lparr>data = []\<rparr>"
  shows "handler E getUserInfo uuid req cfg database =
           (\<lparr>status = 200, body = Value JUndefined\<rparr>,
            \<lparr>data = filter (\<lambda>it. objectId it \<noteq> JStr (user_objectId currentUser))
                      (data database)\<rparr>)"
proof -
  have "\<And>it. it \<in> set (data database) \<Longrightarrow>
          Type (get_column it columns_objectId) = Type (JStr (user_objectId currentUser))"
    using assms(4) by (auto dest!: run_strings)
  then have "deleteBy E columns_objectId (JStr (user_objectId currentUser)) database =
      Inr (database\<lparr>data := filter (\<lambda>it. \<not> IsStrictlyEqual (get_column it columns_objectId)
             (JStr (user_objectId currentUser))) (data database)\<rparr>)"
    by (rule deleteBy_same_type)
  then show ?thesis
    using assms(1-3)
    by (simp add: handler_resolved handler_switch_def bind_exn_def IsStrictlyEqual_JStr)
qed

text \<open>Alice and Bob have posted one item each; Alice deletes without a body, and Bob's
  item is what remains.\<close>

theorem delete_without_body_removes_own_items_witness:
  "\<forall>E. handler E directory ''id-9''
          \<lparr>req_method = ''DELETE'', req_query = JObj 0 [], req_body = JUndefined\<rparr>
          \<lparr>AccessToken = ''token-alice''\<rparr>
          (run E directory [post_as ''token-alice'' ''id-1'' ''buy milk'',
                            post_as ''token-bob'' ''id-2'' ''call home''] \<lparr>data = []\<rparr>) =
        (\<lparr>status = 200, body = Value JUndefined\<rparr>, \<lparr>data = [todo ''id-2'' ''call home'' ''bob'']\<rparr>)"
proof
  fix E :: engine
  let ?req = "\<lparr>req_method = ''DELETE'', req_query = JObj 0 [], req_body = JUndefined\<rparr>"
  let ?cs = "[post_as ''token-alice'' ''id-1'' ''buy milk'',
              post_as ''token-bob'' ''id-2'' ''call home'']"
  have m: "toLowerCase (req_method ?req) = ''delete''"
    by (simp add: toLowerCase_def toLowerCase_char_def)
  have u: "directory (AccessToken \<lparr>AccessToken = ''token-alice''\<rparr>) =
             Inr \<lparr>displayName = ''Alice'', user_objectId = ''alice''\<rparr>"
    by (simp add: directory_def)
  have b: "\<not> ToBoolean (req_body ?req)"
    by simp
  show "handler E directory ''id-9'' ?req \<lparr>AccessToken = ''token-alice''\<rparr>
          (run E directory ?cs \<lparr>data = []\<rparr>) =
        (\<lparr>status = 200, body = Value JUndefined\<rparr>, \<lparr>data = [todo ''id-2'' ''call home'' ''bob'']\<rparr>)"
    using delete_without_body_removes_own_items [where req = ?req and getUserInfo = directory
        and cfg = "\<lparr>AccessToken = ''token-alice''\<rparr>"
        and currentUser = "\<lparr>displayName = ''Alice'', user_objectId = ''alice''\<rparr>"
        and E = E and uuid = "''id-9''" and cs = ?cs
        and database = "run E directory ?cs \<lparr>data = []\<rparr>", OF m u b refl]
    unfolding run_two_posts by (simp add: todo_def)
qed

subsection \<open>C7\<close>

text \<open>
  C7. A \<^verbatim>\<open>PUT\<close> or \<^verbatim>\<open>DELETE\<close> whose \<^verbatim>\<open>id\<close> matches no item is claimed to leave the store
  unchanged and to answer 200. \<^verbatim>\<open>PUT\<close> does, comparing with \<^verbatim>\<open>===\<close> (\<open>put_unknown_id\<close>),
  and so does \<^verbatim>\<open>DELETE\<close> with a string that is the \<^verbatim>\<open>id\<close> of no item
  (\<open>delete_unknown_string_id\<close>). But \<^verbatim>\<open>DELETE\<close> compares with \<^verbatim>\<open>!=\<close>: the body
  \<^verbatim>\<open>{"id": ["id-1"]}\<close>, whose \<^verbatim>\<open>id\<close> is an array and the \<^verbatim>\<open>id\<close> of no item, removes the
  item \<^verbatim>\<open>"id-1"\<close>, where a \<^verbatim>\<open>PUT\<close> with the same \<^verbatim>\<open>id\<close> finds no item and changes nothing.
\<close>

theorem delete_by_array_id_removes_item:
  "handler E directory ''id-9''
     \<lparr>req_method = ''DELETE'', req_query = JObj 0 [],
      req_body = JObj 1 [(''id'', JArr 2 [JStr ''id-1''])]\<rparr>
     \<lparr>AccessToken = ''token-bob''\<rparr>
     \<lparr>data = [todo ''id-1'' ''buy milk'' ''alice'', todo ''id-2'' ''call home'' ''bob'']\<rparr> =
     (\<lparr>status = 200, body = Value JUndefined\<rparr>, \<lparr>data = [todo ''id-2'' ''call home'' ''bob'']\<rparr>) \<and>
   handler E directory ''id-9''
     \<lparr>req_method = ''PUT'', req_query = JObj 0 [],
      req_body = JObj 1 [(''id'', JArr 2 [JStr ''id-1'']), (''isCompleted'', JBool True)]\<rparr>
     \<lparr>AccessToken = ''token-bob''\<rparr>
     \<lparr>data = [todo ''id-1'' ''buy milk'' ''alice'', todo ''id-2'' ''call home'' ''bob'']\<rparr> =
     (\<lparr>status = 200, body = Value JUndefined\<rparr>,
      \<lparr>data = [todo ''id-1'' ''buy milk'' ''alice'', todo ''id-2'' ''call home'' ''bob'']\<rparr>)"
  by (simp add: handler_def handler_switch_def bind_exn_def directory_def toLowerCase_def
      toLowerCase_char_def deleteBy_def IsLooselyUnequal_def IsLooselyEqual.simps ToPrimitive_def
      setColumn_def todo_def)

text \<open>What holds of the claim: an unknown \<^verbatim>\<open>id\<close> under \<^verbatim>\<open>PUT\<close>, and an unknown string
  under \<^verbatim>\<open>DELETE\<close> in a store whose identifiers are strings.\<close>

lemma put_unknown_id:
  assumes "toLowerCase (req_method req) = ''put''"
    and "getUserInfo (AccessToken cfg) = Inr currentUser"
    and "\<not> nullish (req_body req)"
    and "\<And>it. it \<in> set (data database) \<Longrightarrow>
           \<not> IsStrictlyEqual (item_id it) (property (req_body req) ''id'')"
  shows "handler E getUserInfo uuid req cfg database =
           (\<lparr>status = 200, body = Value JUndefined\<rparr>, database)"
proof -
  have "map (\<lambda>it. if IsStrictlyEqual (item_id it) (property (req_body req) ''id'') then f it else it)
          (data database) = data database" for f
    using assms(4) by (induction "data database") (simp_all add: map_idI)
  then show ?thesis
    using assms(1-3)
    by (simp add: handler_resolved handler_switch_def bind_exn_def GetV_property setColumn_def
      setColumn_loop_map)
qed

lemma delete_unknown_string_id:
  assumes "toLowerCase (req_method req) = ''delete''"
    and "getUserInfo (AccessToken cfg) = Inr currentUser"
    and "ToBoolean (req_body req)"
    and "property (req_body req) ''id'' = JStr s"
    and "\<And>it. it \<in> set (data database) \<Longrightarrow> Type (item_id it) = TString"
    and "\<And>it. it \<in> set (data database) \<Longrightarrow> item_id it \<noteq> JStr s"
  shows "handler E getUserInfo uuid req cfg database =
           (\<lparr>status = 200, body = Value JUndefined\<rparr>, database)"
proof -
  have "deleteBy E columns_id (JStr s) database =
      Inr (database\<lparr>data := filter (\<lambda>it. \<not> IsStrictlyEqual (get_column it columns_id) (JStr s))
             (data database)\<rparr>)"
    by (rule deleteBy_same_type) (simp add: assms(5))
  moreover have "filter (\<lambda>it. \<not> IsStrictlyEqual (get_column it columns_id) (JStr s))
             (data database) = data database"
    using assms(6) by (simp add: IsStrictlyEqual_JStr)
  moreover have "\<not> nullish (req_body req)"
    using assms(3) by (auto simp: nullish_def)
  ultimately show ?thesis
    using assms(1-4)
    by (simp add: handler_resolved handler_switch_def bind_exn_def GetV_property)
qed

text \<open>The conversion that \<^verbatim>\<open>!=\<close> applies to an object can also throw: the store is then
  unchanged, and the answer is 500.\<close>

lemma delete_by_unprintable_id_fails:
  "handler E directory ''id-9''
     \<lparr>req_method = ''DELETE'', req_query = JObj 0 [],
      req_body = JObj 1 [(''id'', JObj 2 [(''toString'', JNum (Fin 1))])]\<rparr>
     \<lparr>AccessToken = ''token-bob''\<rparr>
     \<lparr>data = [todo ''id-1'' ''buy milk'' ''alice'']\<rparr> =
     (\<lparr>status = 500, body = ErrorBody TypeError\<rparr>, \<lparr>data = [todo ''id-1'' ''buy milk'' ''alice'']\<rparr>)"
  by (simp add: handler_def handler_switch_def bind_exn_def directory_def toLowerCase_def
      toLowerCase_char_def deleteBy_def IsLooselyUnequal_def IsLooselyEqual.simps ToPrimitive_def
      todo_def)

subsection \<open>C8\<close>

text \<open>
  C8. \<^verbatim>\<open>listBy\<close> returns exactly the items whose field is strictly equal to the value, in
  the order of the store, which is the order of insertion. For a string, the empty one
  included, and for \<^verbatim>\<open>undefined\<close>, which is what a missing query parameter gives, these
  are the items whose field is that very value: an empty value matches nothing else.
\<close>

theorem listBy_exact:
  "listBy col v db = filter (\<lambda>it. IsStrictlyEqual (get_column it col) v) (data db) \<and>
   listBy col (JStr s) db = filter (\<lambda>it. get_column it col = JStr s) (data db) \<and>
   listBy col JUndefined db = filter (\<lambda>it. get_column it col = JUndefined) (data db) \<and>
   subseq (listBy col v db) (data db)"
  by (simp add: listBy_filter IsStrictlyEqual_JStr IsStrictlyEqual_JUndefined)

subsection \<open>C9\<close>

text \<open>
  C9. A request whose method, in lower case, is none of \<^verbatim>\<open>get\<close>, \<^verbatim>\<open>put\<close>, \<^verbatim>\<open>post\<close> and
  \<^verbatim>\<open>delete\<close> leaves the store as it was, and for a resolved caller the response is 200
  with the empty string as its result.
\<close>

theorem other_method_no_operation:
  assumes "toLowerCase (req_method req) \<notin> {''get'', ''put'', ''post'', ''delete''}"
  shows "snd (handler E getUserInfo uuid req cfg database) = database \<and>
         (\<forall>currentUser. getUserInfo (AccessToken cfg) = Inr currentUser \<longrightarrow>
            fst (handler E getUserInfo uuid req cfg database) =
              \<lparr>status = 200, body = Value (JStr [])\<rparr>)"
  using assms
  by (cases "getUserInfo (AccessToken cfg)")
     (simp_all add: handler_rejected handler_resolved handler_switch_def)

text \<open>A \<^verbatim>\<open>PATCH\<close> from Bob.\<close>

theorem other_method_no_operation_witness:
  "\<forall>E. handler E directory ''id-9''
          \<lparr>req_method = ''PATCH'', req_query = JObj 0 [], req_body = JObj 1 [(''id'', JStr ''id-1'')]\<rparr>
          \<lparr>AccessToken = ''token-bob''\<rparr> \<lparr>data = [todo ''id-1'' ''buy milk'' ''alice'']\<rparr> =
        (\<lparr>status = 200, body = Value (JStr [])\<rparr>, \<lparr>data = [todo ''id-1'' ''buy milk'' ''alice'']\<rparr>)"
proof
  fix E :: engine
  let ?req = "\<lparr>req_method = ''PATCH'', req_query = JObj 0 [],
               req_body = JObj 1 [(''id'', JStr ''id-1'')]\<rparr>"
  let ?db = "\<lparr>data = [todo ''id-1'' ''buy milk'' ''alice'']\<rparr>"
  have m: "toLowerCase (req_method ?req) \<notin> {''get'', ''put'', ''post'', ''delete''}"
    by (simp add: toLowerCase_def toLowerCase_char_def)
  have u: "directory (AccessToken \<lparr>AccessToken = ''token-bob''\<rparr>) =
             Inr \<lparr>displayName = ''Bob'', user_objectId = ''bob''\<rparr>"
    by (simp add: directory_def)
  from other_method_no_operation [where req = ?req and E = E and getUserInfo = directory
      and uuid = "''id-9''" and cfg = "\<lparr>AccessToken = ''token-bob''\<rparr>" and database = ?db] m
  have "snd (handler E directory ''id-9'' ?req \<lparr>AccessToken = ''token-bob''\<rparr> ?db) = ?db"
    and "fst (handler E directory ''id-9'' ?req \<lparr>AccessToken = ''token-bob''\<rparr> ?db) =
           \<lparr>status = 200, body = Value (JStr [])\<rparr>"
    using u by blast+
  then show "handler E directory ''id-9'' ?req \<lparr>AccessToken = ''token-bob''\<rparr> ?db =
        (\<lparr>status = 200, body = Value (JStr [])\<rparr>, ?db)"
    by (simp add: prod_eq_iff)
qed

subsection \<open>C10\<close>

text \<open>
  C10. \<^verbatim>\<open>listBy\<close> compares with \<^verbatim>\<open>===\<close> (\<open>listBy_filter\<close>) and \<^verbatim>\<open>deleteBy\<close> with \<^verbatim>\<open>!=\<close>
  (\<open>deleteBy_filter\<close>), and the two differ on an item whose \<^verbatim>\<open>isCompleted\<close> is the
  number 1. With the value \<^verbatim>\<open>true\<close>, \<^verbatim>\<open>listBy\<close> does not return the item and \<^verbatim>\<open>deleteBy\<close>
  removes it. With the string \<^verbatim>\<open>"1"\<close> it is the same in every engine that reads that
  string as the number 1, as ECMAScript prescribes.
\<close>

theorem deleteBy_looser_than_listBy:
  assumes "isCompleted it = JNum (Fin 1)"
  shows "listBy columns_isCompleted (JBool True) \<lparr>data = [it]\<rparr> = [] \<and>
         deleteBy E columns_isCompleted (JBool True) \<lparr>data = [it]\<rparr> = Inr \<lparr>data = []\<rparr> \<and>
         (StringToNumber E ''1'' = Fin 1 \<longrightarrow>
            listBy columns_isCompleted (JStr ''1'') \<lparr>data = [it]\<rparr> = [] \<and>
            deleteBy E columns_isCompleted (JStr ''1'') \<lparr>data = [it]\<rparr> = Inr \<lparr>data = []\<rparr>)"
  using assms
  by (simp add: listBy_filter deleteBy_def IsLooselyUnequal_def IsLooselyEqual.simps
      Number_equal_def Boolean_ToNumber_def)

text \<open>A completed item, and any engine once it reads \<^verbatim>\<open>"1"\<close> as 1.\<close>

theorem deleteBy_looser_than_listBy_witness:
  "\<forall>E. listBy columns_isCompleted (JBool True)
          \<lparr>data = [(todo ''id-1'' ''buy milk'' ''alice'')\<lparr>isCompleted := JNum (Fin 1)\<rparr>]\<rparr> = [] \<and>
        deleteBy E columns_isCompleted (JBool True)
          \<lparr>data = [(todo ''id-1'' ''buy milk'' ''alice'')\<lparr>isCompleted := JNum (Fin 1)\<rparr>]\<rparr> =
          Inr \<lparr>data = []\<rparr> \<and>
        listBy columns_isCompleted (JStr ''1'')
          \<lparr>data = [(todo ''id-1'' ''buy milk'' ''alice'')\<lparr>isCompleted := JNum (Fin 1)\<rparr>]\<rparr> = [] \<and>
        deleteBy (E\<lparr>StringToNumber := (StringToNumber E)(''1'' := Fin 1)\<rparr>)
          columns_isCompleted (JStr ''1'')
          \<lparr>data = [(todo ''id-1'' ''buy milk'' ''alice'')\<lparr>isCompleted := JNum (Fin 1)\<rparr>]\<rparr> =
          Inr \<lparr>data = []\<rparr>"
proof
  fix E :: engine
  let ?E = "E\<lparr>StringToNumber := (StringToNumber E)(''1'' := Fin 1)\<rparr>"
  let ?it = "(todo ''id-1'' ''buy milk'' ''alice'')\<lparr>isCompleted := JNum (Fin 1)\<rparr>"
  have e: "StringToNumber ?E ''1'' = Fin 1" by simp
  have i: "isCompleted ?it = JNum (Fin 1)" by simp
  from deleteBy_looser_than_listBy [where E = ?E and it = ?it] e i
  have "listBy columns_isCompleted (JStr ''1'') \<lparr>data = [?it]\<rparr> = []"
    and "deleteBy ?E columns_isCompleted (JStr ''1'') \<lparr>data = [?it]\<rparr> = Inr \<lparr>data = []\<rparr>"
    by blast+
  moreover from deleteBy_looser_than_listBy [where E = E and it = ?it] i
  have "listBy columns_isCompleted (JBool True) \<lparr>data = [?it]\<rparr> = []"
    and "deleteBy E columns_isCompleted (JBool True) \<lparr>data = [?it]\<rparr> = Inr \<lparr>data = []\<rparr>"
    by blast+
  ultimately
  show "listBy columns_isCompleted (JBool True) \<lparr>data = [?it]\<rparr> = [] \<and>
        deleteBy E columns_isCompleted (JBool True) \<lparr>data = [?it]\<rparr> = Inr \<lparr>data = []\<rparr> \<and>
        listBy columns_isCompleted (JStr ''1'') \<lparr>data = [?it]\<rparr> = [] \<and>
        deleteBy ?E columns_isCompleted (JStr ''1'') \<lparr>data = [?it]\<rparr> = Inr \<lparr>data = []\<rparr>"
    by blast
qed

end
